theory Spec2Isabelle
  imports Complex_Main "HOL-Library.AList"
begin

section \<open>Data model of \<^verbatim>\<open>smqtk/iqr_index/libsvm_hik.py\<close>\<close>

text \<open>
  The module defines one class, \<^verbatim>\<open>LibSvmHikIqrIndex\<close>, with the methods
  \<^verbatim>\<open>__init__\<close>, \<^verbatim>\<open>_gen_w1_weight\<close>, \<^verbatim>\<open>_gen_svm_parameter_string\<close>, \<^verbatim>\<open>count\<close>,
  \<^verbatim>\<open>build_index\<close> and \<^verbatim>\<open>rank\<close>.

  Conventions of the embedding.
  \<^item> Python floats are the real numbers: rounding, overflow and underflow of IEEE doubles
    are not modelled.
  \<^item> A descriptor element is a value of an arbitrary type \<open>'d\<close>; equality on \<open>'d\<close> is the
    equality Python uses for dictionary keys. Its method \<^verbatim>\<open>vector()\<close> is the function
    \<open>vector\<close> of the environment.
  \<^item> Every Python exception is a value of type \<open>error\<close>; a method returns its result, or
    the exception, together with the state it leaves behind.
\<close>

text \<open>
  \<open>ZeroDivisionError\<close>, \<open>IndexError\<close> and \<open>ValueError\<close> are Python's exceptions of these
  names (\<open>ValueError\<close> is what \<^verbatim>\<open>numpy.dot\<close> raises on operands whose shapes do not
  agree). \<open>NoneTypeError\<close> stands for the exception raised when \<^verbatim>\<open>None\<close> is used as a
  matrix, \<open>ShapeMismatch\<close> is the error of the specification's kernel function, and
  \<open>TrainerFailure\<close> is an exception of the trainer.
\<close>

datatype error =
    ZeroDivisionError
  | IndexError
  | ValueError
  | NoneTypeError
  | ShapeMismatch
  | TrainerFailure

text \<open>
  The values that occur in the dictionary \<^verbatim>\<open>SVM_TRAIN_PARAMS\<close>: strings, ints, floats
  (\<^verbatim>\<open>0.0078125\<close> is 1/128).
\<close>

datatype param_value = PStr string | PInt int | PFloat real

text \<open>\<^verbatim>\<open>svm.svm_problem(train_labels, train_vectors)\<close>: the labels and the vectors.\<close>

record svm_problem =
  prob_y :: "int list"
  prob_x :: "real list list"

text \<open>
  What \<^verbatim>\<open>rank\<close> reads of the libSVM model that \<^verbatim>\<open>svmutil.svm_train\<close> returns. The fields
  \<^verbatim>\<open>nSV\<close>, \<^verbatim>\<open>SV\<close>, \<^verbatim>\<open>rho\<close>, \<^verbatim>\<open>probA\<close> and \<^verbatim>\<open>probB\<close> are C arrays read through pointers
  (\<^verbatim>\<open>SV[i][j].value\<close> is \<open>SV m i j\<close>), so reading any index yields a number;
  \<open>get_sv_coef\<close> is the list of tuples the method \<^verbatim>\<open>get_sv_coef()\<close> returns.
\<close>

record svm_model =
  nr_class :: nat
  nSV :: "nat \<Rightarrow> nat"
  SV :: "nat \<Rightarrow> nat \<Rightarrow> real"
  get_sv_coef :: "real list list"
  rho :: "nat \<Rightarrow> real"
  probA :: "nat \<Rightarrow> real"
  probB :: "nat \<Rightarrow> real"

text \<open>A two-dimensional numpy array: its shape and its rows.\<close>

record ndarray2 =
  shape :: "nat \<times> nat"
  rows :: "real list list"

text \<open>
  What the module imports and calls but does not define: the method \<^verbatim>\<open>vector()\<close> of a
  descriptor element, the trainer \<^verbatim>\<open>svmutil.svm_train\<close> (a deterministic function of the
  problem and the parameter string, which may raise), the distance function
  \<^verbatim>\<open>histogram_intersection_distance2\<close>, and Python's \<^verbatim>\<open>str\<close> on floats.
\<close>

record 'd environment =
  vector :: "'d \<Rightarrow> real list"
  svm_train :: "svm_problem \<Rightarrow> string \<Rightarrow> error + svm_model"
  histogram_intersection_distance2 :: "real list \<Rightarrow> real list \<Rightarrow> real"
  str_float :: "real \<Rightarrow> string"

text \<open>
  The attributes of an instance: \<^verbatim>\<open>_descr_cache\<close>, \<^verbatim>\<open>_descr_matrix\<close> (\<^verbatim>\<open>None\<close> or a
  matrix, given by its rows), \<^verbatim>\<open>_descr2index\<close> (a dict keyed by \<^verbatim>\<open>tuple(v)\<close>) and
  \<^verbatim>\<open>_dist_kernel\<close>.
\<close>

record 'd LibSvmHikIqrIndex =
  descr_cache :: "'d list"
  descr_matrix :: "real list list option"
  descr2index :: "real list \<rightharpoonup> nat"
  dist_kernel :: "real list list option"

text \<open>
  The state a method runs in: the instance \<^verbatim>\<open>self\<close>, and the calls of
  \<^verbatim>\<open>svmutil.svm_train\<close> made so far, each with its two arguments.
\<close>

record 'd world =
  self :: "'d LibSvmHikIqrIndex"
  svm_train_calls :: "(svm_problem \<times> string) list"

section \<open>Construction, weights and the parameter string\<close>

definition init :: "'d LibSvmHikIqrIndex" where
  "init = \<lparr>descr_cache = [], descr_matrix = None, descr2index = Map.empty, dist_kernel = None\<rparr>"

text \<open>
  \<^verbatim>\<open>max(1.0, num_neg/float(num_pos))\<close>; dividing a float by \<^verbatim>\<open>0.0\<close> raises
  \<^verbatim>\<open>ZeroDivisionError\<close> in Python.
\<close>

definition gen_w1_weight :: "nat \<Rightarrow> nat \<Rightarrow> error + real" where
  "gen_w1_weight num_pos num_neg =
     (if real num_pos = 0 then Inl ZeroDivisionError
      else Inr (max 1 (real num_neg / real num_pos)))"

definition SVM_TRAIN_PARAMS :: "(string \<times> param_value) list" where
  "SVM_TRAIN_PARAMS =
     [(''-q'', PStr ''''),
      (''-t'', PInt 5),
      (''-b'', PInt 1),
      (''-c'', PInt 2),
      (''-g'', PFloat (1 / 128))]"

fun str_nat :: "nat \<Rightarrow> string" where
  "str_nat n =
     (if n < 10 then [''0123456789'' ! n]
      else str_nat (n div 10) @ [''0123456789'' ! (n mod 10)])"

definition str_int :: "int \<Rightarrow> string" where
  "str_int i = (if i < 0 then ''-'' @ str_nat (nat (- i)) else str_nat (nat i))"

definition str_value :: "'d environment \<Rightarrow> param_value \<Rightarrow> string" where
  "str_value env v =
     (case v of PStr s \<Rightarrow> s | PInt i \<Rightarrow> str_int i | PFloat r \<Rightarrow> str_float env r)"

fun join :: "string \<Rightarrow> string list \<Rightarrow> string" where
  "join sep [] = []"
| "join sep [s] = s"
| "join sep (s # t # ts) = s @ sep @ join sep (t # ts)"

text \<open>
  \<^verbatim>\<open>params['-w1'] = ...\<close> on a copy of the class dictionary, then the items joined. The
  dictionary is the list of its items in insertion order (the order of iteration of a
  Python 3.7 dict; an older interpreter may iterate in another order, which only the
  trainer could observe).
\<close>

declare str_nat.simps [simp del]

definition gen_svm_parameter_string :: "'d environment \<Rightarrow> nat \<Rightarrow> nat \<Rightarrow> error + string" where
  "gen_svm_parameter_string env num_pos num_neg =
     (case gen_w1_weight num_pos num_neg of
        Inl e \<Rightarrow> Inl e
      | Inr w1 \<Rightarrow>
          (let params = AList.update ''-w1'' (PFloat w1) SVM_TRAIN_PARAMS
           in Inr (join '' '' (map (\<lambda>(k, v). join '' '' [k, str_value env v]) params))))"

section \<open>The index: \<^verbatim>\<open>count\<close> and \<^verbatim>\<open>build_index\<close>\<close>

definition count :: "'d world \<Rightarrow> nat" where
  "count w = length (descr_cache (self w))"

text \<open>
  The loop \<^verbatim>\<open>for i, d in enumerate(descriptors)\<close>, on the three attributes it appends to:
  the cache, the list of vectors and the reverse lookup.
\<close>

fun build_index_loop ::
  "'d environment \<Rightarrow> nat \<Rightarrow> 'd list \<Rightarrow>
   'd list \<times> real list list \<times> (real list \<rightharpoonup> nat) \<Rightarrow>
   'd list \<times> real list list \<times> (real list \<rightharpoonup> nat)" where
  "build_index_loop env i [] acc = acc"
| "build_index_loop env i (d # ds) (cache, matrix, d2i) =
     (let v = vector env d
      in build_index_loop env (Suc i) ds (cache @ [d], matrix @ [v], d2i(v \<mapsto> i)))"

text \<open>
  The three attributes are reset, the loop runs, and the list of vectors becomes a numpy
  array (the same rows). The method has no \<^verbatim>\<open>raise\<close>; it returns \<^verbatim>\<open>None\<close>.
  \<^verbatim>\<open>_dist_kernel\<close> is not assigned.
\<close>

definition build_index ::
  "'d environment \<Rightarrow> 'd list \<Rightarrow> 'd world \<Rightarrow> (error + unit) \<times> 'd world" where
  "build_index env descriptors w =
     (case build_index_loop env 0 descriptors ([], [], Map.empty) of
        (cache, matrix, d2i) \<Rightarrow>
          (Inr (),
           w\<lparr>self := (self w)\<lparr>descr_cache := cache,
                               descr2index := d2i,
                               descr_matrix := Some matrix\<rparr>\<rparr>))"

section \<open>Ranking\<close>

text \<open>
  Modelled from the spec: \<^verbatim>\<open>compute_distance_matrix\<close> of \<^verbatim>\<open>smqtk.utils.distance_kernel\<close>
  is imported by the module and is not part of the source at hand. The specification
  (Distance/Kernel Matrix Builder) has \<^verbatim>\<open>build(setA: M vectors, setB: N vectors)\<close> return
  the M x N matrix whose entry (i, j) is the kernel function of \<^verbatim>\<open>setA[i]\<close> and
  \<^verbatim>\<open>setB[j]\<close>, and the kernel function fail with ShapeMismatch on vectors of different
  lengths. The second argument must be a set of vectors: given \<^verbatim>\<open>None\<close>, which is what
  \<^verbatim>\<open>_descr_matrix\<close> holds before the first \<^verbatim>\<open>build_index\<close>, the call raises.
\<close>

definition compute_distance_matrix ::
  "real list list \<Rightarrow> real list list option \<Rightarrow> (real list \<Rightarrow> real list \<Rightarrow> real) \<Rightarrow>
   error + ndarray2" where
  "compute_distance_matrix m1 m2 dist_func =
     (case m2 of
        None \<Rightarrow> Inl NoneTypeError
      | Some b \<Rightarrow>
          if list_ex (\<lambda>u. list_ex (\<lambda>v. length u \<noteq> length v) b) m1 then Inl ShapeMismatch
          else Inr \<lparr>shape = (length m1, length b),
                    rows = map (\<lambda>u. map (\<lambda>v. dist_func u v) b) m1\<rparr>)"

text \<open>
  \<^verbatim>\<open>numpy.dot(a, k)\<close> of a vector and a matrix: the lengths must agree, and entry j of the
  result is the sum over i of \<^verbatim>\<open>a[i] * k[i, j]\<close>.
\<close>

definition numpy_dot :: "real list \<Rightarrow> ndarray2 \<Rightarrow> error + real list" where
  "numpy_dot a k =
     (if length a \<noteq> fst (shape k) then Inl ValueError
      else Inr (map (\<lambda>j. sum_list (map2 (\<lambda>c r. c * r ! j) a (rows k)))
                    [0..<snd (shape k)]))"

text \<open>
  \<^verbatim>\<open>dict(pairs)\<close>: the pairs are stored one after the other, so a later pair replaces an
  earlier one with the same key.
\<close>

fun dict_update :: "('k \<rightharpoonup> 'v) \<Rightarrow> ('k \<times> 'v) list \<Rightarrow> ('k \<rightharpoonup> 'v)" where
  "dict_update m [] = m"
| "dict_update m ((k, v) # ps) = dict_update (m(k \<mapsto> v)) ps"

definition dict :: "('k \<times> 'v) list \<Rightarrow> ('k \<rightharpoonup> 'v)" where
  "dict ps = dict_update Map.empty ps"

text \<open>
  The second half of \<^verbatim>\<open>rank\<close> (from the comment \<^verbatim>\<open>Platt Scaling for probability
  rankings\<close> to the \<^verbatim>\<open>return\<close>), given the trained model and the training vectors. It
  reads \<^verbatim>\<open>self._descr_matrix\<close> and \<^verbatim>\<open>self._descr_cache\<close> and assigns no attribute.
  \<^verbatim>\<open>train_vectors[0]\<close> raises \<^verbatim>\<open>IndexError\<close> on an empty list.
\<close>

definition platt_scaling ::
  "'d environment \<Rightarrow> svm_model \<Rightarrow> real list list \<Rightarrow> 'd LibSvmHikIqrIndex \<Rightarrow>
   error + ('d \<rightharpoonup> real)" where
  "platt_scaling env model train_vectors slf =
     (let num_SVs = sum_list (map (nSV model) [0..<nr_class model])
      in case train_vectors of
           [] \<Rightarrow> Inl IndexError
         | v0 # _ \<Rightarrow>
             (let dim_SVs = length v0;
                  svm_SVs = map (\<lambda>i. map (\<lambda>j. SV model i j) [0..<dim_SVs]) [0..<num_SVs]
              in case compute_distance_matrix svm_SVs (descr_matrix slf)
                        (histogram_intersection_distance2 env) of
                   Inl e \<Rightarrow> Inl e
                 | Inr svm_test_k \<Rightarrow>
                     (let weights = concat (get_sv_coef model)
                      in case numpy_dot weights svm_test_k of
                           Inl e \<Rightarrow> Inl e
                         | Inr margins \<Rightarrow>
                             (let rho0 = rho model 0;
                                  probA0 = probA model 0;
                                  probB0 = probB model 0;
                                  probs = map (\<lambda>m. 1 / (1 + exp ((m - rho0) * probA0 + probB0)))
                                              margins
                              in Inr (dict (zip (descr_cache slf) probs))))))"

text \<open>
  \<^verbatim>\<open>rank(pos, neg)\<close>. The arguments of \<^verbatim>\<open>svmutil.svm_train\<close> are evaluated before the
  call, so an exception of \<^verbatim>\<open>_gen_svm_parameter_string\<close> leaves the trainer uncalled.
\<close>

definition rank ::
  "'d environment \<Rightarrow> 'd list \<Rightarrow> 'd list \<Rightarrow> 'd world \<Rightarrow>
   (error + ('d \<rightharpoonup> real)) \<times> 'd world" where
  "rank env pos neg w =
     (let train_labels = map (\<lambda>d. 1) pos @ map (\<lambda>d. - 1) neg;
          train_vectors = map (vector env) pos @ map (vector env) neg;
          svm_problem = \<lparr>prob_y = train_labels, prob_x = train_vectors\<rparr>
      in case gen_svm_parameter_string env (length pos) (length neg) of
           Inl e \<Rightarrow> (Inl e, w)
         | Inr param_str \<Rightarrow>
             (let w' = w\<lparr>svm_train_calls := svm_train_calls w @ [(svm_problem, param_str)]\<rparr>
              in case svm_train env svm_problem param_str of
                   Inl e \<Rightarrow> (Inl e, w')
                 | Inr svm_model \<Rightarrow> (platt_scaling env svm_model train_vectors (self w'), w')))"

section \<open>The specification's vocabulary\<close>





section \<open>A concrete environment\<close>

text \<open>
  Descriptors are natural numbers; an even one has the vector \<open>[1, 0]\<close>, an odd one
  \<open>[0, 1]\<close>. The distance is one minus the histogram intersection. The trainer returns a
  model with two support vectors, \<open>[1, 0]\<close> with coefficient 1 and \<open>[0, 1]\<close> with
  coefficient -1.
\<close>

definition example_distance :: "real list \<Rightarrow> real list \<Rightarrow> real" where
  "example_distance a b = 1 - sum_list (map2 min a b)"

definition example_model :: svm_model where
  "example_model =
     \<lparr>nr_class = 2,
      nSV = (\<lambda>c. 1),
      SV = (\<lambda>i j. if i = j then 1 else 0),
      get_sv_coef = [[1], [- 1]],
      rho = (\<lambda>i. 0),
      probA = (\<lambda>i. 1),
      probB = (\<lambda>i. 0)\<rparr>"

definition example_env :: "nat environment" where
  "example_env =
     \<lparr>vector = (\<lambda>d. if even d then [1, 0] else [0, 1]),
      svm_train = (\<lambda>problem params. Inr example_model),
      histogram_intersection_distance2 = example_distance,
      str_float = (\<lambda>r. if r = 1 then ''1.0'' else ''?'')\<rparr>"

text \<open>A freshly constructed instance, and no call of the trainer yet.\<close>

definition fresh :: "nat world" where
  "fresh = \<lparr>self = init, svm_train_calls = []\<rparr>"

section \<open>Facts about the index\<close>

text \<open>
  The loop of \<^verbatim>\<open>build_index\<close> appends to the cache and to the matrix, and the reverse
  lookup of a vector is the last position at which it was inserted.
\<close>

lemma build_index_loop_snoc:
  "build_index_loop env i (ds @ [d]) acc =
     (case build_index_loop env i ds acc of
        (cache, matrix, d2i) \<Rightarrow>
          (cache @ [d], matrix @ [vector env d], d2i(vector env d \<mapsto> i + length ds)))"
proof (induction ds arbitrary: i acc)
  case Nil
  show ?case by (cases acc) (simp add: Let_def fun_upd_def)
next
  case (Cons a ds)
  show ?case by (cases acc) (simp add: Cons.IH Let_def)
qed

lemma build_index_loop_cache:
  "fst (build_index_loop env i ds (cache, matrix, d2i)) = cache @ ds"
  by (induction ds arbitrary: i cache matrix d2i) (simp_all add: Let_def)

lemma build_index_loop_matrix:
  "fst (snd (build_index_loop env i ds (cache, matrix, d2i))) = matrix @ map (vector env) ds"
  by (induction ds arbitrary: i cache matrix d2i) (simp_all add: Let_def)

lemma build_index_loop_lookup_last:
  assumes "j < length ds"
    and "\<forall>l. j < l \<and> l < length ds \<longrightarrow> vector env (ds ! l) \<noteq> vector env (ds ! j)"
  shows "snd (snd (build_index_loop env i ds acc)) (vector env (ds ! j)) = Some (i + j)"
  using assms
proof (induction ds rule: rev_induct)
  case Nil
  then show ?case by simp
next
  case (snoc d ds)
  obtain c m t where loop: "build_index_loop env i ds acc = (c, m, t)"
    by (cases "build_index_loop env i ds acc") auto
  show ?case
  proof (cases "j = length ds")
    case True
    then show ?thesis by (simp add: build_index_loop_snoc loop)
  next
    case False
    with snoc.prems have j: "j < length ds" by simp
    have last: "vector env d \<noteq> vector env (ds ! j)"
      using snoc.prems(2) j by (auto simp: nth_append dest: spec [of _ "length ds"])
    have "\<forall>l. j < l \<and> l < length ds \<longrightarrow> vector env (ds ! l) \<noteq> vector env (ds ! j)"
    proof (intro allI impI)
      fix l assume l: "j < l \<and> l < length ds"
      with snoc.prems(2) have "vector env ((ds @ [d]) ! l) \<noteq> vector env ((ds @ [d]) ! j)"
        by simp
      with l show "vector env (ds ! l) \<noteq> vector env (ds ! j)" by (simp add: nth_append)
    qed
    with snoc.IH j have "snd (snd (build_index_loop env i ds acc)) (vector env (ds ! j)) = Some (i + j)"
      by simp
    with last j show ?thesis
      by (simp add: build_index_loop_snoc loop nth_append)
  qed
qed

lemma build_index_self:
  "self (snd (build_index env ds w)) =
     (self w)\<lparr>descr_cache := ds,
              descr2index := snd (snd (build_index_loop env 0 ds ([], [], Map.empty))),
              descr_matrix := Some (map (vector env) ds)\<rparr>"
proof -
  obtain c m t where loop: "build_index_loop env 0 ds ([], [], Map.empty) = (c, m, t)"
    by (cases "build_index_loop env 0 ds ([], [], Map.empty)") auto
  have "c = ds" using build_index_loop_cache [of env 0 ds "[]" "[]" Map.empty] loop by simp
  moreover have "m = map (vector env) ds"
    using build_index_loop_matrix [of env 0 ds "[]" "[]" Map.empty] loop by simp
  ultimately show ?thesis by (simp add: build_index_def loop)
qed

lemma build_index_returns: "fst (build_index env ds w) = Inr ()"
  by (simp add: build_index_def split: prod.splits)

lemma build_index_calls: "svm_train_calls (snd (build_index env ds w)) = svm_train_calls w"
  by (simp add: build_index_def split: prod.splits)

lemma build_index_empty:
  "build_index env [] w =
     (Inr (), w\<lparr>self := (self w)\<lparr>descr_cache := [], descr2index := Map.empty,
                                  descr_matrix := Some []\<rparr>\<rparr>)"
  by (simp add: build_index_def)

lemma last_position_exists:
  assumes "j < (n::nat)" and "P j"
  shows "\<exists>k. j \<le> k \<and> k < n \<and> P k \<and> (\<forall>l. k < l \<and> l < n \<longrightarrow> \<not> P l)"
proof -
  let ?Q = "\<lambda>k. k < n \<and> P k"
  have Qj: "?Q j" using assms by simp
  have bound: "\<And>y. ?Q y \<Longrightarrow> y \<le> n" by simp
  have "?Q (Greatest ?Q)" using Qj bound by (rule GreatestI_nat)
  moreover have "j \<le> Greatest ?Q" using Qj bound by (rule Greatest_le_nat)
  moreover have "\<forall>l. Greatest ?Q < l \<and> l < n \<longrightarrow> \<not> P l"
  proof (intro allI impI notI)
    fix l assume l: "Greatest ?Q < l \<and> l < n" and "P l"
    then have "?Q l" by simp
    then have "l \<le> Greatest ?Q" using bound by (rule Greatest_le_nat)
    with l show False by simp
  qed
  ultimately show ?thesis by blast
qed

section \<open>Facts about ranking\<close>







lemma rank_keeps_self: "self (snd (rank env pos neg w)) = self w"
  by (simp add: rank_def Let_def split: sum.splits)

lemma rank_result_self:
  assumes "self w = self w'"
  shows "fst (rank env pos neg w) = fst (rank env pos neg w')"
  using assms by (simp add: rank_def Let_def split: sum.splits)



lemma example_rank_succeeds:
  "\<exists>scores. fst (rank example_env [0, 4] [1] (snd (build_index example_env ds fresh))) = Inr scores"
  by (auto simp: rank_def platt_scaling_def build_index_self Let_def
      gen_svm_parameter_string_def gen_w1_weight_def example_env_def example_model_def
      compute_distance_matrix_def numpy_dot_def numeral_2_eq_2 list_ex_iff)

lemma gen_svm_parameter_string_value:
  assumes "0 < num_pos"
  shows "gen_svm_parameter_string env num_pos num_neg =
           Inr (''-q  -t 5 -b 1 -c 2 -g '' @ str_float env (1 / 128) @ '' -w1 '' @
                str_float env (max 1 (real num_neg / real num_pos)))"
  using assms
  by (simp add: gen_svm_parameter_string_def gen_w1_weight_def SVM_TRAIN_PARAMS_def
      str_value_def str_int_def str_nat.simps)

lemma rank_train_call:
  assumes "gen_svm_parameter_string env (length pos) (length neg) = Inr param_str"
  shows "svm_train_calls (snd (rank env pos neg w)) =
           svm_train_calls w @
             [(\<lparr>prob_y = map (\<lambda>d. 1) pos @ map (\<lambda>d. - 1) neg,
                prob_x = map (vector env) pos @ map (vector env) neg\<rparr>, param_str)]"
  using assms by (simp add: rank_def Let_def split: sum.splits)

lemma platt_scaling_reads:
  assumes "descr_cache slf = descr_cache slf'" and "descr_matrix slf = descr_matrix slf'"
  shows "platt_scaling env model tv slf = platt_scaling env model tv slf'"
  unfolding platt_scaling_def assms by (rule refl)

lemma rank_result_snapshot:
  assumes "descr_cache (self w) = descr_cache (self w')"
    and "descr_matrix (self w) = descr_matrix (self w')"
  shows "fst (rank env pos neg w) = fst (rank env pos neg w')"
  using platt_scaling_reads [OF assms]
  by (simp add: rank_def Let_def split: sum.splits)


section \<open>The claims\<close>

subsection \<open>C1: the scores of a ranking call\<close>




subsection \<open>C2: indexing an empty sequence\<close>

text \<open>
  Claim C2 has \<^verbatim>\<open>build_index([])\<close> fail and leave the stored snapshot as it was; the
  docstring of the method documents the failure (\<^verbatim>\<open>:raises ValueError: No data available
  in the given iterable\<close>). The method has no \<^verbatim>\<open>raise\<close>. On an index that holds two descriptors,
  \<^verbatim>\<open>build_index([])\<close> returns normally and the snapshot is replaced by an empty one:
  \<^verbatim>\<open>count()\<close> goes from 2 to 0, the matrix has no rows and the reverse lookup no keys.
\<close>

theorem build_index_empty_input_returns:
  "count (snd (build_index example_env [0, 1] fresh)) = 2
   \<and> fst (build_index example_env [] (snd (build_index example_env [0, 1] fresh))) = Inr ()
   \<and> count (snd (build_index example_env [] (snd (build_index example_env [0, 1] fresh)))) = 0
   \<and> descr_matrix (self (snd (build_index example_env []
                                  (snd (build_index example_env [0, 1] fresh))))) = Some []
   \<and> descr2index (self (snd (build_index example_env []
                                  (snd (build_index example_env [0, 1] fresh))))) = Map.empty"
  by (simp add: count_def build_index_self build_index_returns)

subsection \<open>C3: ranking without positive exemplars\<close>

text \<open>
  Claim C3. With \<^verbatim>\<open>pos\<close> empty, \<^verbatim>\<open>rank(pos, neg)\<close> fails, and it fails before the trainer is
  invoked: the state after the call is the state before it, so no call of
  \<^verbatim>\<open>svmutil.svm_train\<close> has been made. The exception is the \<^verbatim>\<open>ZeroDivisionError\<close> that
  \<^verbatim>\<open>num_neg/float(num_pos)\<close> raises in \<^verbatim>\<open>_gen_w1_weight\<close> while the arguments of the
  trainer are evaluated; it is the failure that the specification names
  InsufficientExemplarsError.
\<close>

theorem rank_without_positives_fails_before_training:
  "rank env [] neg w = (Inl ZeroDivisionError, w)
   \<and> svm_train_calls (snd (rank env [] neg w)) = svm_train_calls w"
  by (simp add: rank_def gen_svm_parameter_string_def gen_w1_weight_def)

text \<open>
An instance: no positive and one negative exemplar, on a fresh instance.
\<close>

theorem rank_without_positives_fails_before_training_witness:
  "rank example_env [] [1] fresh = (Inl ZeroDivisionError, fresh)"
  using rank_without_positives_fails_before_training [of example_env "[1]" fresh]
  by simp

subsection \<open>C4: the weight of the positive class\<close>

text \<open>
  Claim C4. For \<open>num_pos > 0\<close> the weight is \<open>max 1 (num_neg / num_pos)\<close>; it is the value
  written after \<^verbatim>\<open>-w1\<close> in the parameter string, and \<^verbatim>\<open>rank\<close> passes that string to the
  trainer. The weight is 1 for every number \<open>a\<close> of negatives that does not exceed
  \<open>num_pos\<close>, and from \<open>num_pos\<close> on it grows strictly with the number of negatives
  (\<open>num_pos \<le> b < c\<close>).
\<close>

theorem w1_weight_passed_to_trainer:
  assumes "0 < num_pos" and "length pos = num_pos" and "length neg = num_neg"
    and "a \<le> num_pos" and "num_pos \<le> b" and "b < c"
  shows "gen_w1_weight num_pos num_neg = Inr (max 1 (real num_neg / real num_pos))
       \<and> gen_svm_parameter_string env num_pos num_neg =
           Inr (''-q  -t 5 -b 1 -c 2 -g '' @ str_float env (1 / 128) @ '' -w1 '' @
                str_float env (max 1 (real num_neg / real num_pos)))
       \<and> svm_train_calls (snd (rank env pos neg w)) =
           svm_train_calls w @
             [(\<lparr>prob_y = map (\<lambda>d. 1) pos @ map (\<lambda>d. - 1) neg,
                prob_x = map (vector env) pos @ map (vector env) neg\<rparr>,
               ''-q  -t 5 -b 1 -c 2 -g '' @ str_float env (1 / 128) @ '' -w1 '' @
                str_float env (max 1 (real num_neg / real num_pos)))]
       \<and> gen_w1_weight num_pos a = Inr 1
       \<and> (\<exists>x y. gen_w1_weight num_pos b = Inr x \<and> gen_w1_weight num_pos c = Inr y
                \<and> 1 \<le> x \<and> x < y)"
proof -
  have pos: "0 < real num_pos" using assms(1) by simp
  have w: "gen_w1_weight num_pos num_neg = Inr (max 1 (real num_neg / real num_pos))"
    using assms(1) by (simp add: gen_w1_weight_def)
  have s: "gen_svm_parameter_string env num_pos num_neg =
           Inr (''-q  -t 5 -b 1 -c 2 -g '' @ str_float env (1 / 128) @ '' -w1 '' @
                str_float env (max 1 (real num_neg / real num_pos)))"
    using assms(1) by (rule gen_svm_parameter_string_value)
  have c: "svm_train_calls (snd (rank env pos neg w)) =
           svm_train_calls w @
             [(\<lparr>prob_y = map (\<lambda>d. 1) pos @ map (\<lambda>d. - 1) neg,
                prob_x = map (vector env) pos @ map (vector env) neg\<rparr>,
               ''-q  -t 5 -b 1 -c 2 -g '' @ str_float env (1 / 128) @ '' -w1 '' @
                str_float env (max 1 (real num_neg / real num_pos)))]"
    by (rule rank_train_call) (simp only: assms(2,3) s)
  have "real a / real num_pos \<le> 1" using assms(1,4) by simp
  then have a: "gen_w1_weight num_pos a = Inr 1"
    using assms(1) by (simp add: gen_w1_weight_def max_def)
  have b1: "1 \<le> real b / real num_pos" using assms(1,5) by simp
  have bc: "real b / real num_pos < real c / real num_pos"
    using pos assms(6) by (simp add: divide_strict_right_mono)
  have "gen_w1_weight num_pos b = Inr (real b / real num_pos)"
    using assms(1) b1 by (simp add: gen_w1_weight_def max_def)
  moreover have "1 \<le> real c / real num_pos" using b1 bc by linarith
  then have "gen_w1_weight num_pos c = Inr (real c / real num_pos)"
    using assms(1) by (simp add: gen_w1_weight_def max_def)
  ultimately have "\<exists>x y. gen_w1_weight num_pos b = Inr x \<and> gen_w1_weight num_pos c = Inr y
                \<and> 1 \<le> x \<and> x < y"
    using b1 bc by simp
  with w s c a show ?thesis by simp
qed

text \<open>
An instance: two positive and five negative exemplars give the weight 5/2.
\<close>

theorem w1_weight_passed_to_trainer_witness:
  "gen_w1_weight 2 5 = Inr (5 / 2)
   \<and> gen_svm_parameter_string example_env 2 5 = Inr ''-q  -t 5 -b 1 -c 2 -g ? -w1 ?''
   \<and> snd (last (svm_train_calls (snd (rank example_env [0, 2] [1, 3, 5, 7, 9] fresh))))
       = ''-q  -t 5 -b 1 -c 2 -g ? -w1 ?''
   \<and> gen_w1_weight 2 1 = Inr 1
   \<and> (\<exists>x y. gen_w1_weight 2 3 = Inr x \<and> gen_w1_weight 2 4 = Inr y \<and> 1 \<le> x \<and> x < y)"
  using w1_weight_passed_to_trainer [of 2 "[0, 2]" "[1, 3, 5, 7, 9]" 5 1 3 4 example_env fresh]
  by (simp add: example_env_def)

subsection \<open>C5: Platt scaling\<close>



subsection \<open>C6: rebuilding the index\<close>

text \<open>
  Claim C6. After \<^verbatim>\<open>build_index(ds)\<close> on a non-empty \<open>ds\<close>, from any prior state \<open>w\<close>: the
  call has returned normally, \<^verbatim>\<open>count()\<close> is the length of \<open>ds\<close>, the cache is \<open>ds\<close> itself,
  row i of the matrix is the vector of \<open>ds ! i\<close>, and the cache, the matrix and the reverse
  lookup are the same whatever the prior state was (\<open>w\<close> or any other \<open>w'\<close>).
\<close>

theorem build_index_replaces_snapshot:
  assumes "ds \<noteq> []"
  shows "fst (build_index env ds w) = Inr ()
       \<and> count (snd (build_index env ds w)) = length ds
       \<and> descr_cache (self (snd (build_index env ds w))) = ds
       \<and> descr_matrix (self (snd (build_index env ds w))) = Some (map (vector env) ds)
       \<and> descr_cache (self (snd (build_index env ds w))) =
           descr_cache (self (snd (build_index env ds w')))
       \<and> descr_matrix (self (snd (build_index env ds w))) =
           descr_matrix (self (snd (build_index env ds w')))
       \<and> descr2index (self (snd (build_index env ds w))) =
           descr2index (self (snd (build_index env ds w')))"
  by (simp add: build_index_returns count_def build_index_self)

text \<open>
An instance: an index of three descriptors is rebuilt from two others.
\<close>

theorem build_index_replaces_snapshot_witness:
  "[3, 4] \<noteq> ([] :: nat list)
   \<and> count (snd (build_index example_env [0, 1, 2] fresh)) = 3
   \<and> count (snd (build_index example_env [3, 4] (snd (build_index example_env [0, 1, 2] fresh)))) = 2
   \<and> descr_cache (self (snd (build_index example_env [3, 4]
                                  (snd (build_index example_env [0, 1, 2] fresh))))) = [3, 4]
   \<and> descr_matrix (self (snd (build_index example_env [3, 4]
                                  (snd (build_index example_env [0, 1, 2] fresh)))))
       = Some [[0, 1], [1, 0]]
   \<and> descr2index (self (snd (build_index example_env [3, 4]
                                  (snd (build_index example_env [0, 1, 2] fresh))))) =
       descr2index (self (snd (build_index example_env [3, 4] fresh)))"
  using build_index_replaces_snapshot
          [of "[3, 4]" example_env "snd (build_index example_env [0, 1, 2] fresh)" fresh]
        build_index_replaces_snapshot [of "[0, 1, 2]" example_env fresh fresh]
  by (simp add: example_env_def)

subsection \<open>C7: descriptors with identical vectors\<close>

text \<open>
  Claim C7, as amended. If the descriptors at positions \<open>i < j\<close> of the input have the same
  vector, the reverse lookup maps that vector to the last position \<open>k \<ge> j\<close> whose
  descriptor has it (last inserted wins), so both descriptors resolve to the same row
  index; \<open>k\<close> is \<open>j\<close> when no later descriptor has that vector. The cache retains both
  entries.
\<close>

theorem reverse_lookup_last_inserted_wins:
  assumes "i < j" and "j < length ds" and "vector env (ds ! i) = vector env (ds ! j)"
  shows "(\<exists>k. j \<le> k \<and> k < length ds
            \<and> vector env (ds ! k) = vector env (ds ! j)
            \<and> (\<forall>l. k < l \<and> l < length ds \<longrightarrow> vector env (ds ! l) \<noteq> vector env (ds ! j))
            \<and> descr2index (self (snd (build_index env ds w))) (vector env (ds ! i)) = Some k
            \<and> descr2index (self (snd (build_index env ds w))) (vector env (ds ! j)) = Some k)
       \<and> ((\<forall>l. j < l \<and> l < length ds \<longrightarrow> vector env (ds ! l) \<noteq> vector env (ds ! j)) \<longrightarrow>
            descr2index (self (snd (build_index env ds w))) (vector env (ds ! i)) = Some j
          \<and> descr2index (self (snd (build_index env ds w))) (vector env (ds ! j)) = Some j)
       \<and> length (descr_cache (self (snd (build_index env ds w)))) = length ds
       \<and> descr_cache (self (snd (build_index env ds w))) ! i = ds ! i
       \<and> descr_cache (self (snd (build_index env ds w))) ! j = ds ! j"
proof -
  let ?v = "vector env (ds ! j)"
  let ?t = "descr2index (self (snd (build_index env ds w)))"
  have t: "?t = snd (snd (build_index_loop env 0 ds ([], [], Map.empty)))"
    by (simp add: build_index_self)
  have last: "?t (vector env (ds ! k)) = Some k"
    if "k < length ds" "\<forall>l. k < l \<and> l < length ds \<longrightarrow> vector env (ds ! l) \<noteq> vector env (ds ! k)"
    for k
    using build_index_loop_lookup_last [OF that, of 0 "([], [], Map.empty)"] by (simp add: t)
  from last_position_exists [of j "length ds" "\<lambda>k. vector env (ds ! k) = ?v"] assms(2)
  obtain k where k: "j \<le> k" "k < length ds" "vector env (ds ! k) = ?v"
      "\<forall>l. k < l \<and> l < length ds \<longrightarrow> vector env (ds ! l) \<noteq> ?v"
    by auto
  from last [of k] k have "?t ?v = Some k" by simp
  with k assms(3) have first: "\<exists>k. j \<le> k \<and> k < length ds
            \<and> vector env (ds ! k) = ?v
            \<and> (\<forall>l. k < l \<and> l < length ds \<longrightarrow> vector env (ds ! l) \<noteq> ?v)
            \<and> ?t (vector env (ds ! i)) = Some k \<and> ?t ?v = Some k"
    by auto
  have second: "(\<forall>l. j < l \<and> l < length ds \<longrightarrow> vector env (ds ! l) \<noteq> ?v) \<longrightarrow>
            ?t (vector env (ds ! i)) = Some j \<and> ?t ?v = Some j"
    using last [of j] assms(2,3) by simp
  have "descr_cache (self (snd (build_index env ds w))) = ds"
    by (simp add: build_index_self)
  with first second show ?thesis by simp
qed

text \<open>
An instance: descriptors 0 and 2 share the vector \<open>[1, 0]\<close>; the lookup gives row 2.
\<close>

theorem reverse_lookup_last_inserted_wins_witness:
  "(0::nat) < 2 \<and> 2 < length [0::nat, 1, 2]
   \<and> vector example_env ([0, 1, 2] ! 0) = vector example_env ([0, 1, 2] ! 2)
   \<and> descr2index (self (snd (build_index example_env [0, 1, 2] fresh))) [1, 0] = Some 2
   \<and> descr_cache (self (snd (build_index example_env [0, 1, 2] fresh))) ! 0 = 0
   \<and> descr_cache (self (snd (build_index example_env [0, 1, 2] fresh))) ! 2 = 2"
  using reverse_lookup_last_inserted_wins [of 0 2 "[0, 1, 2]" example_env fresh]
  by (simp add: example_env_def)

text \<open>
  The claim as stated has the lookup give the later position \<open>j\<close> of any such pair. With
  three descriptors of one vector, the pair at positions 0 and 1 is looked up at row 2.
\<close>

theorem reverse_lookup_not_the_later_of_a_pair:
  "vector example_env ([0, 2, 4] ! 0) = vector example_env ([0, 2, 4] ! 1)
   \<and> descr2index (self (snd (build_index example_env [0, 2, 4] fresh)))
       (vector example_env ([0, 2, 4] ! 1)) = Some 2
   \<and> descr2index (self (snd (build_index example_env [0, 2, 4] fresh)))
       (vector example_env ([0, 2, 4] ! 1)) \<noteq> Some 1"
  by (simp add: build_index_self example_env_def Let_def)

subsection \<open>C8: ranking does not change the snapshot\<close>

text \<open>
  Claim C8. After \<^verbatim>\<open>rank(pos, neg)\<close>, whether it returned or raised, the instance is the one
  before the call: the cache, the matrix and the reverse lookup are unchanged, and so is
  \<^verbatim>\<open>count()\<close>.
\<close>

theorem rank_leaves_snapshot_unchanged:
  "self (snd (rank env pos neg w)) = self w
   \<and> descr_cache (self (snd (rank env pos neg w))) = descr_cache (self w)
   \<and> descr_matrix (self (snd (rank env pos neg w))) = descr_matrix (self w)
   \<and> descr2index (self (snd (rank env pos neg w))) = descr2index (self w)
   \<and> count (snd (rank env pos neg w)) = count w"
  by (simp add: rank_keeps_self count_def)

text \<open>
An instance: a ranking call on an index of three descriptors.
\<close>

theorem rank_leaves_snapshot_unchanged_witness:
  "self (snd (rank example_env [0, 4] [1] (snd (build_index example_env [0, 1, 2] fresh)))) =
     self (snd (build_index example_env [0, 1, 2] fresh))
   \<and> count (snd (rank example_env [0, 4] [1] (snd (build_index example_env [0, 1, 2] fresh))))
       = 3"
  using rank_leaves_snapshot_unchanged
          [of example_env "[0, 4]" "[1]" "snd (build_index example_env [0, 1, 2] fresh)"]
  by (simp add: count_def build_index_self)

subsection \<open>C9: ranking is deterministic\<close>

text \<open>
  Claim C9. The outcome of \<^verbatim>\<open>rank(pos, neg)\<close> is determined by the cache, the matrix and
  the two exemplar sequences: two states that agree on the cache and on the matrix give the
  same outcome, and running the same call a second time, in the state the first run left,
  gives the outcome of the first run.
\<close>

theorem rank_is_deterministic:
  assumes "descr_cache (self w) = descr_cache (self w')"
    and "descr_matrix (self w) = descr_matrix (self w')"
  shows "fst (rank env pos neg w) = fst (rank env pos neg w')
       \<and> fst (rank env pos neg (snd (rank env pos neg w))) = fst (rank env pos neg w)"
proof -
  have "fst (rank env pos neg w) = fst (rank env pos neg w')"
    using assms by (rule rank_result_snapshot)
  moreover have "fst (rank env pos neg (snd (rank env pos neg w))) = fst (rank env pos neg w)"
    by (rule rank_result_self) (rule rank_keeps_self)
  ultimately show ?thesis by simp
qed

text \<open>
  An instance: the second state is the one a previous ranking call has left, with one more
  call of the trainer recorded; both states give the same scores.
\<close>

theorem rank_is_deterministic_witness:
  "descr_cache (self (snd (build_index example_env [0, 1, 2] fresh))) =
     descr_cache (self (snd (rank example_env [0] [1] (snd (build_index example_env [0, 1, 2] fresh)))))
   \<and> svm_train_calls (snd (build_index example_env [0, 1, 2] fresh)) \<noteq>
     svm_train_calls (snd (rank example_env [0] [1] (snd (build_index example_env [0, 1, 2] fresh))))
   \<and> fst (rank example_env [0, 4] [1] (snd (build_index example_env [0, 1, 2] fresh))) =
     fst (rank example_env [0, 4] [1]
            (snd (rank example_env [0] [1] (snd (build_index example_env [0, 1, 2] fresh)))))
   \<and> \<not> isl (fst (rank example_env [0, 4] [1] (snd (build_index example_env [0, 1, 2] fresh))))"
proof -
  let ?w = "snd (build_index example_env [0, 1, 2] fresh)"
  let ?w' = "snd (rank example_env [0] [1] ?w)"
  have c: "descr_cache (self ?w) = descr_cache (self ?w')"
    and m: "descr_matrix (self ?w) = descr_matrix (self ?w')"
    by (simp_all add: rank_keeps_self)
  have calls: "svm_train_calls ?w \<noteq> svm_train_calls ?w'"
    by (simp add: rank_def Let_def gen_svm_parameter_string_def gen_w1_weight_def
        example_env_def build_index_calls)
  have "\<not> isl (fst (rank example_env [0, 4] [1] ?w))"
    using example_rank_succeeds [of "[0, 1, 2]"] by auto
  with rank_is_deterministic [OF c m, of example_env "[0, 4]" "[1]"] c calls
  show ?thesis by simp
qed

subsection \<open>C10: ranking before any index is built\<close>



end
